theory Spec2Isabelle
  imports Complex_Main "HOL-Library.AList"
begin

section \<open>Values shared by the server and the client\<close>

text \<open>
  Python exceptions are values. Only two facts about an exception are ever inspected by
  the code: whether it is a \<^verbatim>\<open>requests.exceptions.RequestException\<close> (the client
  has a separate handler for those) and its text \<^verbatim>\<open>str(e)\<close>. "Exception" means an
  instance of Python's \<^verbatim>\<open>Exception\<close> class.
\<close>

datatype exn_kind = RequestException | OtherException

datatype exn = Exn (kind: exn_kind) (message: string)

text \<open>
  Python numbers that reach a JSON document: an \<^verbatim>\<open>int\<close> or a \<^verbatim>\<open>float\<close>. Floats are
  idealised as reals.
\<close>

datatype pynum = PyInt int | PyFloat real

fun num_val :: "pynum \<Rightarrow> real" where
  "num_val (PyInt i) = real_of_int i"
| "num_val (PyFloat x) = x"

datatype json =
    JNull
  | JBool bool
  | JNum pynum
  | JStr string
  | JArr "json list"
  | JObj "(string \<times> json) list"

text \<open>A Python \<^verbatim>\<open>dict\<close> with string keys keeps insertion order: an association list.\<close>

type_synonym dict = "(string \<times> json) list"

type_synonym bytes = string

section \<open>The inference server (modal\_app.py)\<close>

subsection \<open>What the server calls but does not define\<close>

text \<open>
  The model and librosa are external. \<open>generate\<close> stands for the three calls
  \<^verbatim>\<open>apply_chat_template\<close>, \<^verbatim>\<open>model.generate\<close>, \<^verbatim>\<open>batch_decode(...)[0]\<close>: from the
  instruction text, the audio found at the path, \<^verbatim>\<open>max_new_tokens\<close> and the decoding
  mode it gives the generated text or raises. \<open>librosa_load\<close> is
  \<^verbatim>\<open>librosa.load(path, sr=None, duration=d)\<close>: the samples and the sampling rate.
  \<open>beat_track\<close> is \<^verbatim>\<open>librosa.beat.beat_track(y=y, sr=sr)\<close>, of which only the tempo is
  kept. \<open>file_read\<close> is \<^verbatim>\<open>await file.read()\<close> on the uploaded file: its bytes, or the
  exception raised while they are read. \<open>tmp_write\<close> is \<^verbatim>\<open>tmp.write(content)\<close>, with the
  flush at the end of the \<^verbatim>\<open>with\<close> block: it raises when the bytes cannot be written,
  for instance on a full disk.
\<close>

datatype decoding = Sampling | Greedy

record server_world =
  generate :: "string \<Rightarrow> bytes option \<Rightarrow> nat \<Rightarrow> decoding \<Rightarrow> exn + string"
  librosa_load :: "bytes option \<Rightarrow> nat \<Rightarrow> exn + (real list \<times> nat)"
  beat_track :: "real list \<Rightarrow> nat \<Rightarrow> exn + real"
  file_read :: "bytes \<Rightarrow> exn + bytes"
  tmp_write :: "bytes \<Rightarrow> exn + unit"

text \<open>The worker's file system: the files that exist, with their contents.\<close>

type_synonym fs = "(string \<times> bytes) list"

subsection \<open>The fixed prompts\<close>

definition nl :: string where
  "nl = [CHR 0x0A]"

definition fire :: string where
  "fire = [CHR 0xF0, CHR 0x9F, CHR 0x94, CHR 0xA5]"

definition sleeping :: string where
  "sleeping = [CHR 0xF0, CHR 0x9F, CHR 0x98, CHR 0xB4]"

definition rocket :: string where
  "rocket = [CHR 0xF0, CHR 0x9F, CHR 0x9A, CHR 0x80]"

definition moon :: string where
  "moon = [CHR 0xF0, CHR 0x9F, CHR 0x8C, CHR 0x99]"

definition default_prompt :: string where
  "default_prompt =
     ''Analyze this music and provide:'' @ nl @
     ''            1. Genre and style'' @ nl @
     ''            2. Mood and energy level (1-10)'' @ nl @
     ''            3. Best use case (party, chill, workout, etc.)'' @ nl @
     ''            4. Similar artists/tracks'' @ nl @
     ''            5. Production notes (tempo, key, instrumentation)'' @ nl @
     ''            ''"

definition party_prompt :: string where
  "party_prompt =
     ''Rate this track for a party (1-10) and explain why.'' @ nl @
     ''        Consider: energy, danceability, crowd appeal, drop quality.'' @ nl @
     ''        Give a one-line verdict like '' @ [CHR 0x22] @ fire @
     '' BANGER - Drop this at peak time!'' @ [CHR 0x22] @ '' or '' @ [CHR 0x22] @ sleeping @
     '' Skip - Too chill'' @ [CHR 0x22] @ nl @
     ''        ''"

definition caption_prompt :: string where
  "caption_prompt =
     ''Create a catchy social media caption for this track.'' @ nl @
     ''        Make it fun, include emojis, and capture the vibe.'' @ nl @
     ''        Examples: '' @ [CHR 0x22] @ ''This drop hits different '' @ rocket @ [CHR 0x22] @
     '', '' @ [CHR 0x22] @ ''Late night drives only '' @ moon @ [CHR 0x22] @ nl @
     ''        ''"

definition lyrics_prompt :: string where
  "lyrics_prompt = ''Transcribe all lyrics from this song accurately.''"

subsection \<open>The handler class AudioFlamingoMusic\<close>

text \<open>
  The body of the \<^verbatim>\<open>try\<close> block of \<^verbatim>\<open>analyze_music\<close> (lines 141 to 143): load at most
  30 seconds, track the beat, divide the number of samples by the sampling rate. Any of
  the three may raise; the division raises for a zero rate.
\<close>

definition extract_features :: "server_world \<Rightarrow> bytes option \<Rightarrow> exn + (real \<times> real)" where
  "extract_features w audio =
     (case librosa_load w audio 30 of
        Inl e \<Rightarrow> Inl e
      | Inr (y, sr) \<Rightarrow>
          (case beat_track w y sr of
             Inl e \<Rightarrow> Inl e
           | Inr tempo \<Rightarrow>
               if sr = 0 then Inl (Exn OtherException ''division by zero'')
               else Inr (tempo, real (length y) / real sr)))"

text \<open>
  The bare \<^verbatim>\<open>except:\<close> (lines 144 to 146) replaces every failure of the block by
  \<^verbatim>\<open>tempo = 0; duration = 0\<close>, both Python ints.
\<close>

definition audio_features :: "server_world \<Rightarrow> bytes option \<Rightarrow> pynum \<times> pynum" where
  "audio_features w audio =
     (case extract_features w audio of
        Inl e \<Rightarrow> (PyInt 0, PyInt 0)
      | Inr (tempo, duration) \<Rightarrow> (PyFloat tempo, PyFloat duration))"

text \<open>\<^verbatim>\<open>float(tempo) if tempo else 0\<close>\<close>

definition tempo_bpm :: "pynum \<Rightarrow> pynum" where
  "tempo_bpm tempo = (if num_val tempo \<noteq> 0 then PyFloat (num_val tempo) else PyInt 0)"

definition analyze_music :: "server_world \<Rightarrow> fs \<Rightarrow> string \<Rightarrow> string option \<Rightarrow> exn + dict" where
  "analyze_music w files audio_path prompt =
     (let prompt' = (case prompt of None \<Rightarrow> default_prompt | Some p \<Rightarrow> p) in
      case generate w prompt' (map_of files audio_path) 512 Sampling of
        Inl e \<Rightarrow> Inl e
      | Inr response \<Rightarrow>
          (case audio_features w (map_of files audio_path) of
             (tempo, duration) \<Rightarrow>
               Inr [(''analysis'', JStr response),
                    (''tempo_bpm'', JNum (tempo_bpm tempo)),
                    (''duration_seconds'', JNum duration)]))"

text \<open>\<^verbatim>\<open>result["vibe_check"] = True\<close> is \<open>AList.update\<close>: replace in place or append.\<close>

definition party_vibe_check :: "server_world \<Rightarrow> fs \<Rightarrow> string \<Rightarrow> exn + dict" where
  "party_vibe_check w files audio_path =
     (case analyze_music w files audio_path (Some party_prompt) of
        Inl e \<Rightarrow> Inl e
      | Inr result \<Rightarrow> Inr (AList.update ''vibe_check'' (JBool True) result))"

definition transcribe_lyrics :: "server_world \<Rightarrow> fs \<Rightarrow> string \<Rightarrow> exn + dict" where
  "transcribe_lyrics w files audio_path =
     (case generate w lyrics_prompt (map_of files audio_path) 1024 Greedy of
        Inl e \<Rightarrow> Inl e
      | Inr response \<Rightarrow> Inr [(''lyrics'', JStr response)])"

definition generate_caption :: "server_world \<Rightarrow> fs \<Rightarrow> string \<Rightarrow> exn + dict" where
  "generate_caption w files audio_path = analyze_music w files audio_path (Some caption_prompt)"

subsection \<open>The FastAPI routes\<close>

record JSONResponse =
  status :: nat
  content :: dict

datatype fs_event = Created string | Removed string

text \<open>
  \<^verbatim>\<open>NamedTemporaryFile(delete=False, suffix=".wav")\<close> creates an empty file under a name
  that no existing file has. The name chosen here is longer than every existing name.
\<close>

definition tmp_name :: "fs \<Rightarrow> string" where
  "tmp_name files =
     ''/tmp/tmp'' @ replicate (Suc (foldr max (map (\<lambda>p. length (fst p)) files) 0)) CHR ''x''
       @ ''.wav''"

definition NamedTemporaryFile :: "fs \<Rightarrow> string \<times> fs \<times> fs_event list" where
  "NamedTemporaryFile files =
     (let tmp_path = tmp_name files in (tmp_path, (tmp_path, []) # files, [Created tmp_path]))"

text \<open>
  The \<^verbatim>\<open>with\<close> block of every route (lines 225 to 228): create the file, read the upload,
  write it, keep the name. With \<^verbatim>\<open>delete=False\<close> leaving the block closes the file and
  does not remove it, also when the read or the write raises; the exception then leaves
  the route, since the block is not inside the \<^verbatim>\<open>try\<close>.
\<close>

definition NamedTemporaryFile_write ::
  "server_world \<Rightarrow> fs \<Rightarrow> bytes \<Rightarrow> (exn + string) \<times> fs \<times> fs_event list" where
  "NamedTemporaryFile_write w files upload =
     (case NamedTemporaryFile files of
        (tmp_path, files', evs) \<Rightarrow>
          (case file_read w upload of
             Inl e \<Rightarrow> (Inl e, files', evs)
           | Inr buf \<Rightarrow>
               (case tmp_write w buf of
                  Inl e \<Rightarrow> (Inl e, files', evs)
                | Inr u \<Rightarrow> (Inr tmp_path, AList.update tmp_path buf files', evs))))"

text \<open>\<^verbatim>\<open>os.unlink\<close> raises FileNotFoundError for a path that is not there.\<close>

definition os_unlink :: "fs \<Rightarrow> string \<Rightarrow> exn + (fs \<times> fs_event list)" where
  "os_unlink files path =
     (if map_of files path = None
      then Inl (Exn OtherException (''[Errno 2] No such file or directory: '' @ path))
      else Inr (AList.delete path files, [Removed path]))"

text \<open>
  \<^verbatim>\<open>prompt: str = Form(None)\<close>: the form field \<^verbatim>\<open>prompt\<close> of the request, \<^verbatim>\<open>None\<close> when the
  request has none.
\<close>

definition form_prompt :: "(string \<times> string) list \<Rightarrow> string option" where
  "form_prompt data = map_of data ''prompt''"

record route_result =
  outcome :: "exn + JSONResponse"
  files_after :: fs
  fs_log :: "fs_event list"

text \<open>
  The \<^verbatim>\<open>try / except Exception / finally\<close> of every route: the handler's result is the
  body of a 200 response, an exception becomes \<^verbatim>\<open>{"error": str(e)}\<close> with status 500, and
  the \<^verbatim>\<open>finally\<close> clause unlinks the temporary file in both cases. An exception of
  \<^verbatim>\<open>os.unlink\<close> itself leaves the route. A route that ends in an exception has outcome
  \<open>Inl\<close>.
\<close>

definition respond :: "fs \<Rightarrow> fs_event list \<Rightarrow> string \<Rightarrow> exn + dict \<Rightarrow> route_result" where
  "respond files evs tmp_path r =
     (let response =
        (case r of
           Inr result \<Rightarrow> \<lparr>status = 200, content = result\<rparr>
         | Inl e \<Rightarrow> \<lparr>status = 500, content = [(''error'', JStr (message e))]\<rparr>)
      in case os_unlink files tmp_path of
           Inl e \<Rightarrow> \<lparr>outcome = Inl e, files_after = files, fs_log = evs\<rparr>
         | Inr (files', evs') \<Rightarrow>
             \<lparr>outcome = Inr response, files_after = files', fs_log = evs @ evs'\<rparr>)"

definition analyze :: "server_world \<Rightarrow> fs \<Rightarrow> bytes \<Rightarrow> string option \<Rightarrow> route_result" where
  "analyze w files upload prompt =
     (case NamedTemporaryFile_write w files upload of
        (Inl e, files', evs) \<Rightarrow> \<lparr>outcome = Inl e, files_after = files', fs_log = evs\<rparr>
      | (Inr tmp_path, files', evs) \<Rightarrow>
          respond files' evs tmp_path (analyze_music w files' tmp_path prompt))"

definition party_vibe :: "server_world \<Rightarrow> fs \<Rightarrow> bytes \<Rightarrow> route_result" where
  "party_vibe w files upload =
     (case NamedTemporaryFile_write w files upload of
        (Inl e, files', evs) \<Rightarrow> \<lparr>outcome = Inl e, files_after = files', fs_log = evs\<rparr>
      | (Inr tmp_path, files', evs) \<Rightarrow>
          respond files' evs tmp_path (party_vibe_check w files' tmp_path))"

definition transcribe :: "server_world \<Rightarrow> fs \<Rightarrow> bytes \<Rightarrow> route_result" where
  "transcribe w files upload =
     (case NamedTemporaryFile_write w files upload of
        (Inl e, files', evs) \<Rightarrow> \<lparr>outcome = Inl e, files_after = files', fs_log = evs\<rparr>
      | (Inr tmp_path, files', evs) \<Rightarrow>
          respond files' evs tmp_path (transcribe_lyrics w files' tmp_path))"

definition caption :: "server_world \<Rightarrow> fs \<Rightarrow> bytes \<Rightarrow> route_result" where
  "caption w files upload =
     (case NamedTemporaryFile_write w files upload of
        (Inl e, files', evs) \<Rightarrow> \<lparr>outcome = Inl e, files_after = files', fs_log = evs\<rparr>
      | (Inr tmp_path, files', evs) \<Rightarrow>
          respond files' evs tmp_path (generate_caption w files' tmp_path))"

text \<open>
  The application routes a POST to one of the four functions above. \<open>handler\<close> names the
  method of the handler class that the routed function calls through \<^verbatim>\<open>.remote\<close>.
\<close>

datatype route = Analyze_route "string option" | Party_vibe_route | Transcribe_route | Caption_route

fun fastapi_app :: "server_world \<Rightarrow> route \<Rightarrow> fs \<Rightarrow> bytes \<Rightarrow> route_result" where
  "fastapi_app w (Analyze_route prompt) files upload = analyze w files upload prompt"
| "fastapi_app w Party_vibe_route files upload = party_vibe w files upload"
| "fastapi_app w Transcribe_route files upload = transcribe w files upload"
| "fastapi_app w Caption_route files upload = caption w files upload"

fun handler :: "server_world \<Rightarrow> route \<Rightarrow> fs \<Rightarrow> string \<Rightarrow> exn + dict" where
  "handler w (Analyze_route prompt) files path = analyze_music w files path prompt"
| "handler w Party_vibe_route files path = party_vibe_check w files path"
| "handler w Transcribe_route files path = transcribe_lyrics w files path"
| "handler w Caption_route files path = generate_caption w files path"

text \<open>
  The spec's words for the party route: the result of the general analysis route, called
  with the party prompt, extended with a field \<^verbatim>\<open>vibe_check\<close> set to true.
\<close>

definition extended_with_vibe_check :: "route_result \<Rightarrow> route_result" where
  "extended_with_vibe_check a =
     a\<lparr>outcome :=
         (case outcome a of
            Inl e \<Rightarrow> Inl e
          | Inr r \<Rightarrow>
              if status r = 200
              then Inr (r\<lparr>content := content r @ [(''vibe_check'', JBool True)]\<rparr>)
              else Inr r)\<rparr>"

subsection \<open>Worlds to run the server in\<close>

definition studio_world :: server_world where
  "studio_world =
     \<lparr>generate = (\<lambda>prompt audio n d. Inr ''upbeat house, energy 8''),
      librosa_load = (\<lambda>audio d. Inr (replicate (d * 2) 0, 2)),
      beat_track = (\<lambda>y sr. Inr 120),
      file_read = (\<lambda>upload. Inr upload),
      tmp_write = (\<lambda>buf. Inr ())\<rparr>"

definition undecodable_world :: server_world where
  "undecodable_world =
     \<lparr>generate = (\<lambda>prompt audio n d. Inr ''upbeat house, energy 8''),
      librosa_load = (\<lambda>audio d. Inl (Exn OtherException ''Format not recognised'')),
      beat_track = (\<lambda>y sr. Inr 120),
      file_read = (\<lambda>upload. Inr upload),
      tmp_write = (\<lambda>buf. Inr ())\<rparr>"

definition out_of_memory_world :: server_world where
  "out_of_memory_world =
     \<lparr>generate = (\<lambda>prompt audio n d. Inl (Exn OtherException ''CUDA out of memory'')),
      librosa_load = (\<lambda>audio d. Inr ([0, 1, 0, 1], 2)),
      beat_track = (\<lambda>y sr. Inr 120),
      file_read = (\<lambda>upload. Inr upload),
      tmp_write = (\<lambda>buf. Inr ())\<rparr>"

definition disk_full_world :: server_world where
  "disk_full_world =
     \<lparr>generate = (\<lambda>prompt audio n d. Inr ''upbeat house, energy 8''),
      librosa_load = (\<lambda>audio d. Inr (replicate (d * 2) 0, 2)),
      beat_track = (\<lambda>y sr. Inr 120),
      file_read = (\<lambda>upload. Inr upload),
      tmp_write = (\<lambda>buf. Inl (Exn OtherException ''[Errno 28] No space left on device''))\<rparr>"

section \<open>The command-line client (musicmind.py)\<close>

subsection \<open>What the client calls but does not define\<close>

text \<open>
  A \<^verbatim>\<open>requests.Response\<close>, and the world of the client: the environment variable
  \<^verbatim>\<open>MUSICMIND_ENDPOINT\<close>, \<^verbatim>\<open>Path(p).exists()\<close>, \<^verbatim>\<open>open(p, 'rb')\<close>, the session's
  \<^verbatim>\<open>post(url, files, data, timeout)\<close> and \<^verbatim>\<open>get(url, timeout)\<close>,
  \<^verbatim>\<open>response.json()\<close>, and the write of one printed line to standard output, which
  raises (UnicodeEncodeError) when the stream cannot encode the line. Each call returns
  or raises.
\<close>

record response =
  status_code :: nat
  reason :: string
  url :: string
  body :: string

text \<open>
  What the process does that can be observed from outside: lines printed on standard
  output and requests sent. A printed line is a sequence of pieces: literal text,
  \<^verbatim>\<open>str(x)\<close> of a decoded JSON value, a number formatted with \<^verbatim>\<open>:.1f\<close>,
  \<^verbatim>\<open>json.dumps(x, indent=2)\<close>, and the help text of argparse.
\<close>

datatype piece = Lit string | Str json | Format_1f pynum | Dumps_indent_2 json | Help_text

datatype event =
    Print "piece list"
  | Get string
  | Post string bytes "(string \<times> string) list"

record client_world =
  getenv_endpoint :: "string option"
  path_exists :: "string \<Rightarrow> bool"
  open_rb :: "string \<Rightarrow> exn + bytes"
  session_post :: "string \<Rightarrow> bytes \<Rightarrow> (string \<times> string) list \<Rightarrow> nat \<Rightarrow> exn + response"
  session_get :: "string \<Rightarrow> nat \<Rightarrow> exn + response"
  response_json :: "response \<Rightarrow> exn + json"
  stdout_write :: "piece list \<Rightarrow> exn + unit"

type_synonym 'a io = "event list \<times> (exn + 'a)"

definition bind_io :: "'a io \<Rightarrow> ('a \<Rightarrow> 'b io) \<Rightarrow> 'b io" where
  "bind_io m f =
     (case m of
        (ev, Inl e) \<Rightarrow> (ev, Inl e)
      | (ev, Inr x) \<Rightarrow> (case f x of (ev', r) \<Rightarrow> (ev @ ev', r)))"

text \<open>\<^verbatim>\<open>print(...)\<close>: the line appears on standard output, or the write raises.\<close>

definition print_line :: "client_world \<Rightarrow> piece list \<Rightarrow> unit io" where
  "print_line w ps =
     (case stdout_write w ps of
        Inl e \<Rightarrow> ([], Inl e)
      | Inr u \<Rightarrow> ([Print ps], Inr ()))"

definition pure_io :: "exn + 'a \<Rightarrow> 'a io" where
  "pure_io r = ([], r)"

subsection \<open>Text used by the client\<close>

definition cross_mark :: string where
  "cross_mark = [CHR 0xE2, CHR 0x9D, CHR 0x8C]"

definition check_mark :: string where
  "check_mark = [CHR 0xE2, CHR 0x9C, CHR 0x85]"

definition musical_note :: string where
  "musical_note = [CHR 0xF0, CHR 0x9F, CHR 0x8E, CHR 0xB5]"

definition bar_chart :: string where
  "bar_chart = [CHR 0xF0, CHR 0x9F, CHR 0x93, CHR 0x8A]"

definition stopwatch :: string where
  "stopwatch = [CHR 0xE2, CHR 0x8F, CHR 0xB1, CHR 0xEF, CHR 0xB8, CHR 0x8F]"

definition party_popper :: string where
  "party_popper = [CHR 0xF0, CHR 0x9F, CHR 0x8E, CHR 0x89]"

definition microphone :: string where
  "microphone = [CHR 0xF0, CHR 0x9F, CHR 0x8E, CHR 0xA4]"

definition mobile_phone :: string where
  "mobile_phone = [CHR 0xF0, CHR 0x9F, CHR 0x93, CHR 0xB1]"

definition quote :: string where
  "quote = [CHR 0x27]"

fun show_nat :: "nat \<Rightarrow> string" where
  "show_nat n =
     (if n < 10 then [char_of (48 + n)]
      else show_nat (n div 10) @ [char_of (48 + n mod 10)])"

declare show_nat.simps [simp del]

subsection \<open>Python operations on decoded JSON\<close>

fun type_name :: "json \<Rightarrow> string" where
  "type_name JNull = ''NoneType''"
| "type_name (JBool b) = ''bool''"
| "type_name (JNum (PyInt i)) = ''int''"
| "type_name (JNum (PyFloat x)) = ''float''"
| "type_name (JStr s) = ''str''"
| "type_name (JArr xs) = ''list''"
| "type_name (JObj d) = ''dict''"

text \<open>\<^verbatim>\<open>result[key]\<close> with a string key: KeyError on a dict without it, TypeError elsewhere.\<close>

fun subscript :: "json \<Rightarrow> string \<Rightarrow> exn + json" where
  "subscript (JObj d) k =
     (case map_of d k of
        None \<Rightarrow> Inl (Exn OtherException (quote @ k @ quote))
      | Some v \<Rightarrow> Inr v)"
| "subscript (JArr xs) k =
     Inl (Exn OtherException ''list indices must be integers or slices, not str'')"
| "subscript (JStr s) k =
     Inl (Exn OtherException (''string indices must be integers, not '' @ quote @ ''str'' @ quote))"
| "subscript v k =
     Inl (Exn OtherException (quote @ type_name v @ quote @ '' object is not subscriptable''))"

text \<open>\<^verbatim>\<open>f"{x:.1f}"\<close>: numbers and booleans format, everything else raises.\<close>

fun format_1f :: "json \<Rightarrow> exn + piece" where
  "format_1f (JNum n) = Inr (Format_1f n)"
| "format_1f (JBool b) = Inr (Format_1f (PyInt (if b then 1 else 0)))"
| "format_1f (JStr s) =
     Inl (Exn OtherException
       (''Unknown format code '' @ quote @ ''f'' @ quote @ '' for object of type '' @ quote
          @ ''str'' @ quote))"
| "format_1f v =
     Inl (Exn OtherException
       (''unsupported format string passed to '' @ type_name v @ ''.__format__''))"

definition subscript_1f :: "json \<Rightarrow> string \<Rightarrow> exn + piece" where
  "subscript_1f result k =
     (case subscript result k of Inl e \<Rightarrow> Inl e | Inr v \<Rightarrow> format_1f v)"

subsection \<open>The facade class MusicMind\<close>

definition MODAL_ENDPOINT :: "client_world \<Rightarrow> string" where
  "MODAL_ENDPOINT w =
     (case getenv_endpoint w of
        None \<Rightarrow> ''https://themindexpansionnetwork--audio-flamingo-music-fastapi-app.modal.run''
      | Some e \<Rightarrow> e)"

text \<open>\<^verbatim>\<open>self.endpoint = endpoint or MODAL_ENDPOINT\<close>\<close>

definition MusicMind :: "client_world \<Rightarrow> string option \<Rightarrow> string" where
  "MusicMind w endpoint =
     (case endpoint of
        None \<Rightarrow> MODAL_ENDPOINT w
      | Some e \<Rightarrow> if e = [] then MODAL_ENDPOINT w else e)"

definition raise_for_status :: "response \<Rightarrow> exn + unit" where
  "raise_for_status r =
     (if 400 \<le> status_code r \<and> status_code r < 500
      then Inl (Exn RequestException
             (show_nat (status_code r) @ '' Client Error: '' @ reason r @ '' for url: '' @ url r))
      else if 500 \<le> status_code r \<and> status_code r < 600
      then Inl (Exn RequestException
             (show_nat (status_code r) @ '' Server Error: '' @ reason r @ '' for url: '' @ url r))
      else Inr ())"

text \<open>\<^verbatim>\<open>response.raise_for_status(); return response.json()\<close>, after a call that may raise.\<close>

definition checked_json :: "client_world \<Rightarrow> exn + response \<Rightarrow> exn + json" where
  "checked_json w r =
     (case r of
        Inl e \<Rightarrow> Inl e
      | Inr resp \<Rightarrow>
          (case raise_for_status resp of
             Inl e \<Rightarrow> Inl e
           | Inr u \<Rightarrow> response_json w resp))"

text \<open>\<^verbatim>\<open>data = {'prompt': prompt} if prompt else {}\<close>: \<^verbatim>\<open>None\<close> and the empty string are falsy.\<close>

definition prompt_data :: "string option \<Rightarrow> (string \<times> string) list" where
  "prompt_data prompt =
     (case prompt of
        None \<Rightarrow> []
      | Some p \<Rightarrow> if p = [] then [] else [(''prompt'', p)])"

definition MusicMind_analyze ::
  "client_world \<Rightarrow> string \<Rightarrow> string \<Rightarrow> string option \<Rightarrow> json io" where
  "MusicMind_analyze w endpoint audio_path prompt =
     (case open_rb w audio_path of
        Inl e \<Rightarrow> ([], Inl e)
      | Inr f \<Rightarrow>
          ([Post (endpoint @ ''/analyze'') f (prompt_data prompt)],
           checked_json w (session_post w (endpoint @ ''/analyze'') f (prompt_data prompt) 120)))"

definition MusicMind_party_vibe :: "client_world \<Rightarrow> string \<Rightarrow> string \<Rightarrow> json io" where
  "MusicMind_party_vibe w endpoint audio_path =
     (case open_rb w audio_path of
        Inl e \<Rightarrow> ([], Inl e)
      | Inr f \<Rightarrow>
          ([Post (endpoint @ ''/party-vibe'') f []],
           checked_json w (session_post w (endpoint @ ''/party-vibe'') f [] 120)))"

definition MusicMind_transcribe :: "client_world \<Rightarrow> string \<Rightarrow> string \<Rightarrow> json io" where
  "MusicMind_transcribe w endpoint audio_path =
     (case open_rb w audio_path of
        Inl e \<Rightarrow> ([], Inl e)
      | Inr f \<Rightarrow>
          ([Post (endpoint @ ''/transcribe'') f []],
           checked_json w (session_post w (endpoint @ ''/transcribe'') f [] 120)))"

definition MusicMind_caption :: "client_world \<Rightarrow> string \<Rightarrow> string \<Rightarrow> json io" where
  "MusicMind_caption w endpoint audio_path =
     (case open_rb w audio_path of
        Inl e \<Rightarrow> ([], Inl e)
      | Inr f \<Rightarrow>
          ([Post (endpoint @ ''/caption'') f []],
           checked_json w (session_post w (endpoint @ ''/caption'') f [] 120)))"

definition health_check :: "client_world \<Rightarrow> string \<Rightarrow> json io" where
  "health_check w endpoint =
     ([Get (endpoint @ ''/health'')], checked_json w (session_get w (endpoint @ ''/health'') 10))"

subsection \<open>main\<close>

datatype command = Analyze | Party_vibe | Transcribe | Caption | Health

record args =
  arg_command :: command
  arg_audio_file :: "string option"
  arg_prompt :: "string option"
  arg_endpoint :: string
  arg_json :: bool

text \<open>
  \<^verbatim>\<open>parser.parse_args()\<close> is argparse's: it returns the namespace, or prints the help
  and exits with status 0 (\<^verbatim>\<open>-h\<close>), or reports a usage error on standard error and
  exits with status 2 (\<^verbatim>\<open>parser.error\<close>: the positional \<^verbatim>\<open>command\<close> missing or not
  among the five choices, an unknown option, an option without its value).
\<close>

datatype parsed = Usage_error | Help | Namespace args

definition show_health :: "client_world \<Rightarrow> bool \<Rightarrow> json \<Rightarrow> unit io" where
  "show_health w as_json result =
     (if as_json then print_line w [Dumps_indent_2 result]
      else bind_io (pure_io (subscript result ''model'')) (\<lambda>model.
           print_line w [Lit (check_mark @ '' ''), Str model, Lit '' is healthy'']))"

definition show_analysis :: "client_world \<Rightarrow> bool \<Rightarrow> json \<Rightarrow> unit io" where
  "show_analysis w as_json result =
     (if as_json then print_line w [Dumps_indent_2 result]
      else bind_io (print_line w [Lit (musical_note @ '' MUSIC ANALYSIS'')]) (\<lambda>u.
           bind_io (print_line w [Lit (replicate 50 CHR ''='')]) (\<lambda>u.
           bind_io (pure_io (subscript result ''analysis'')) (\<lambda>analysis.
           bind_io (print_line w [Str analysis]) (\<lambda>u.
           bind_io (pure_io (subscript_1f result ''tempo_bpm'')) (\<lambda>tempo.
           bind_io (print_line w [Lit (nl @ bar_chart @ '' Tempo: ''), tempo, Lit '' BPM'']) (\<lambda>u.
           bind_io (pure_io (subscript_1f result ''duration_seconds'')) (\<lambda>duration.
           print_line w [Lit (stopwatch @ ''  Duration: ''), duration, Lit ''s'']))))))))"

definition show_party_vibe :: "client_world \<Rightarrow> bool \<Rightarrow> json \<Rightarrow> unit io" where
  "show_party_vibe w as_json result =
     (if as_json then print_line w [Dumps_indent_2 result]
      else bind_io (print_line w [Lit (party_popper @ '' PARTY VIBE CHECK'')]) (\<lambda>u.
           bind_io (print_line w [Lit (replicate 50 CHR ''='')]) (\<lambda>u.
           bind_io (pure_io (subscript result ''analysis'')) (\<lambda>analysis.
           bind_io (print_line w [Str analysis]) (\<lambda>u.
           bind_io (pure_io (subscript_1f result ''tempo_bpm'')) (\<lambda>tempo.
           print_line w [Lit (nl @ bar_chart @ '' Tempo: ''), tempo, Lit '' BPM'']))))))"

definition show_lyrics :: "client_world \<Rightarrow> bool \<Rightarrow> json \<Rightarrow> unit io" where
  "show_lyrics w as_json result =
     (if as_json then print_line w [Dumps_indent_2 result]
      else bind_io (print_line w [Lit (microphone @ '' LYRICS TRANSCRIPTION'')]) (\<lambda>u.
           bind_io (print_line w [Lit (replicate 50 CHR ''='')]) (\<lambda>u.
           bind_io (pure_io (subscript result ''lyrics'')) (\<lambda>lyrics.
           print_line w [Str lyrics]))))"

definition show_caption :: "client_world \<Rightarrow> bool \<Rightarrow> json \<Rightarrow> unit io" where
  "show_caption w as_json result =
     (if as_json then print_line w [Dumps_indent_2 result]
      else bind_io (print_line w [Lit (mobile_phone @ '' SOCIAL MEDIA CAPTION'')]) (\<lambda>u.
           bind_io (print_line w [Lit (replicate 50 CHR ''='')]) (\<lambda>u.
           bind_io (pure_io (subscript result ''analysis'')) (\<lambda>analysis.
           print_line w [Str analysis]))))"

text \<open>
  The body of a \<^verbatim>\<open>try\<close> block of \<^verbatim>\<open>main\<close>: the one of the health branch (lines 157 to
  161), and for the other commands the \<^verbatim>\<open>if / elif\<close> chain of lines 177 to 214, which
  has no branch for \<^verbatim>\<open>health\<close>.
\<close>

definition try_body :: "client_world \<Rightarrow> string \<Rightarrow> args \<Rightarrow> unit io" where
  "try_body w mind a =
     (case arg_command a of
        Health \<Rightarrow> bind_io (health_check w mind) (show_health w (arg_json a))
      | Analyze \<Rightarrow>
          bind_io (MusicMind_analyze w mind (the (arg_audio_file a)) (arg_prompt a))
            (show_analysis w (arg_json a))
      | Party_vibe \<Rightarrow>
          bind_io (MusicMind_party_vibe w mind (the (arg_audio_file a)))
            (show_party_vibe w (arg_json a))
      | Transcribe \<Rightarrow>
          bind_io (MusicMind_transcribe w mind (the (arg_audio_file a)))
            (show_lyrics w (arg_json a))
      | Caption \<Rightarrow>
          bind_io (MusicMind_caption w mind (the (arg_audio_file a)))
            (show_caption w (arg_json a)))"

text \<open>The two \<^verbatim>\<open>except\<close> clauses of lines 216 to 221, and the one of line 162.\<close>

definition error_line :: "command \<Rightarrow> exn \<Rightarrow> piece list" where
  "error_line c e =
     (if c = Health then [Lit (cross_mark @ '' Health check failed: '' @ message e)]
      else if kind e = RequestException then [Lit (cross_mark @ '' API Error: '' @ message e)]
      else [Lit (cross_mark @ '' Error: '' @ message e)])"

text \<open>
  A \<^verbatim>\<open>try\<close> block with its handler, which prints the error and calls \<^verbatim>\<open>sys.exit(1)\<close>.
  When the handler's own \<^verbatim>\<open>print\<close> raises, nothing catches that exception and the
  process ends with status 1 as well.
\<close>

definition run_try :: "client_world \<Rightarrow> string \<Rightarrow> args \<Rightarrow> event list \<times> nat" where
  "run_try w mind a =
     (case try_body w mind a of
        (ev, Inl e) \<Rightarrow> (ev @ fst (print_line w (error_line (arg_command a) e)), 1)
      | (ev, Inr u) \<Rightarrow> (ev, 0))"

text \<open>
  The result of \<open>main\<close>: what was printed and sent, and the exit status of the process.
  The two checks of lines 168 to 174 print and call \<^verbatim>\<open>sys.exit(1)\<close>; an exception of
  that \<^verbatim>\<open>print\<close> is not caught and gives status 1 too. Printing the help can raise in
  the same way.
\<close>

definition main :: "client_world \<Rightarrow> parsed \<Rightarrow> event list \<times> nat" where
  "main w p =
     (case p of
        Usage_error \<Rightarrow> ([], 2)
      | Help \<Rightarrow>
          (case print_line w [Help_text] of
             (ev, Inl e) \<Rightarrow> (ev, 1)
           | (ev, Inr u) \<Rightarrow> (ev, 0))
      | Namespace a \<Rightarrow>
          (let mind = MusicMind w (Some (arg_endpoint a)) in
           if arg_command a = Health then run_try w mind a
           else if arg_audio_file a = None \<or> arg_audio_file a = Some []
           then (fst (print_line w
                   [Lit (cross_mark @ '' Error: audio_file required for this command'')]), 1)
           else if \<not> path_exists w (the (arg_audio_file a))
           then (fst (print_line w
                   [Lit (cross_mark @ '' Error: File not found: '' @ the (arg_audio_file a))]), 1)
           else run_try w mind a))"

fun stdout :: "event list \<Rightarrow> piece list list" where
  "stdout [] = []"
| "stdout (Print ps # evs) = ps # stdout evs"
| "stdout (ev # evs) = stdout evs"

definition is_request :: "event \<Rightarrow> bool" where
  "is_request ev = (case ev of Get u \<Rightarrow> True | Post u f d \<Rightarrow> True | _ \<Rightarrow> False)"

subsection \<open>The spec's words for the client\<close>











subsection \<open>Worlds to run the client in\<close>

definition ok_response :: "string \<Rightarrow> response" where
  "ok_response u = \<lparr>status_code = 200, reason = ''OK'', url = u, body = ''ok''\<rparr>"


definition health_json :: json where
  "health_json =
     JObj [(''status'', JStr ''healthy''), (''model'', JStr ''audio-flamingo-3''),
           (''cached'', JBool True)]"

definition lyrics_json :: json where
  "lyrics_json = JObj [(''lyrics'', JStr ''la la la'')]"


definition reachable_world :: client_world where
  "reachable_world =
     \<lparr>getenv_endpoint = None,
      path_exists = (\<lambda>p. p = ''song.mp3''),
      open_rb = (\<lambda>p. if p = ''song.mp3'' then Inr ''RIFF''
                      else Inl (Exn OtherException ''No such file or directory'')),
      session_post = (\<lambda>u f d t. Inr (ok_response u)),
      session_get = (\<lambda>u t. Inr (ok_response u)),
      response_json = (\<lambda>r. if url r = ''http://mm/health'' then Inr health_json
                             else Inr lyrics_json),
      stdout_write = (\<lambda>l. Inr ())\<rparr>"


definition constant_reply_world :: "response \<Rightarrow> json \<Rightarrow> client_world" where
  "constant_reply_world r v =
     \<lparr>getenv_endpoint = None,
      path_exists = (\<lambda>p. p = ''song.mp3''),
      open_rb = (\<lambda>p. if p = ''song.mp3'' then Inr ''RIFF''
                      else Inl (Exn OtherException ''No such file or directory'')),
      session_post = (\<lambda>u f d t. Inr r),
      session_get = (\<lambda>u t. Inr r),
      response_json = (\<lambda>r. Inr v),
      stdout_write = (\<lambda>l. Inr ())\<rparr>"



definition cli_args :: "command \<Rightarrow> string option \<Rightarrow> bool \<Rightarrow> args" where
  "cli_args c path as_json =
     \<lparr>arg_command = c, arg_audio_file = path, arg_prompt = None, arg_endpoint = ''http://mm'',
      arg_json = as_json\<rparr>"

section \<open>Properties of the server\<close>

lemma foldr_max_ge: "x \<in> set xs \<Longrightarrow> x \<le> foldr max xs (0::nat)"
  by (induction xs) auto

lemma tmp_name_fresh: "tmp_name files \<notin> fst ` set files"
proof
  assume "tmp_name files \<in> fst ` set files"
  then obtain p where p: "p \<in> set files" and eq: "fst p = tmp_name files"
    by auto
  from p have "length (fst p) \<in> set (map (\<lambda>p. length (fst p)) files)"
    by auto
  then have "length (fst p) \<le> foldr max (map (\<lambda>p. length (fst p)) files) 0"
    by (rule foldr_max_ge)
  moreover have "length (tmp_name files) > foldr max (map (\<lambda>p. length (fst p)) files) 0"
    by (simp add: tmp_name_def)
  ultimately show False
    using eq by simp
qed

lemma tmp_name_absent: "map_of files (tmp_name files) = None"
  using tmp_name_fresh [of files] by (simp add: map_of_eq_None_iff)

lemma unlink_tmp:
  "os_unlink ((tmp_name files, upload) # files) (tmp_name files) =
     Inr (files, [Removed (tmp_name files)])"
  using tmp_name_fresh [of files] by (simp add: os_unlink_def)

lemma respond_tmp:
  "respond ((tmp_name files, upload) # files) evs (tmp_name files) r =
     \<lparr>outcome =
        Inr (case r of
               Inr result \<Rightarrow> \<lparr>status = 200, content = result\<rparr>
             | Inl e \<Rightarrow> \<lparr>status = 500, content = [(''error'', JStr (message e))]\<rparr>),
      files_after = files,
      fs_log = evs @ [Removed (tmp_name files)]\<rparr>"
  by (simp add: respond_def unlink_tmp)

lemma with_block_cases:
  "NamedTemporaryFile_write w files upload =
     (case file_read w upload of
        Inl e \<Rightarrow> (Inl e, (tmp_name files, []) # files, [Created (tmp_name files)])
      | Inr buf \<Rightarrow>
          (case tmp_write w buf of
             Inl e \<Rightarrow> (Inl e, (tmp_name files, []) # files, [Created (tmp_name files)])
           | Inr u \<Rightarrow>
               (Inr (tmp_name files), (tmp_name files, buf) # files,
                [Created (tmp_name files)])))"
  by (simp add: NamedTemporaryFile_write_def NamedTemporaryFile_def Let_def
      split: sum.splits)

lemma fastapi_app_cases:
  "fastapi_app w r files upload =
     (case NamedTemporaryFile_write w files upload of
        (Inl e, files', evs) \<Rightarrow> \<lparr>outcome = Inl e, files_after = files', fs_log = evs\<rparr>
      | (Inr tmp_path, files', evs) \<Rightarrow>
          respond files' evs tmp_path (handler w r files' tmp_path))"
  by (cases r)
     (simp_all add: analyze_def party_vibe_def transcribe_def caption_def
        split: prod.splits sum.splits)

lemma fastapi_app_stored:
  assumes "NamedTemporaryFile_write w files upload = (Inr tmp_path, files', evs)"
  shows "fastapi_app w r files upload =
     \<lparr>outcome =
        Inr (case handler w r files' tmp_path of
               Inr result \<Rightarrow> \<lparr>status = 200, content = result\<rparr>
             | Inl e \<Rightarrow> \<lparr>status = 500, content = [(''error'', JStr (message e))]\<rparr>),
      files_after = files,
      fs_log = [Created tmp_path, Removed tmp_path]\<rparr>"
proof -
  from assms obtain buf where "tmp_path = tmp_name files"
    and "files' = (tmp_name files, buf) # files" and "evs = [Created (tmp_name files)]"
    by (auto simp: with_block_cases split: sum.splits)
  with assms show ?thesis
    by (simp add: fastapi_app_cases respond_tmp)
qed

lemma fastapi_app_not_stored:
  assumes "NamedTemporaryFile_write w files upload = (Inl e, files', evs)"
  shows "fastapi_app w r files upload =
     \<lparr>outcome = Inl e, files_after = (tmp_name files, []) # files,
      fs_log = [Created (tmp_name files)]\<rparr>"
  using assms by (auto simp: fastapi_app_cases with_block_cases split: sum.splits)

lemma with_block_succeeds:
  assumes "file_read w = (\<lambda>upload. Inr upload)" and "tmp_write w = (\<lambda>buf. Inr ())"
  shows "NamedTemporaryFile_write w files upload =
           (Inr (tmp_name files), (tmp_name files, upload) # files, [Created (tmp_name files)])"
  using assms by (simp add: with_block_cases)

lemma analyze_music_cases:
  "analyze_music w files path prompt =
     (case generate w (case prompt of None \<Rightarrow> default_prompt | Some p \<Rightarrow> p)
             (map_of files path) 512 Sampling of
        Inl e \<Rightarrow> Inl e
      | Inr response \<Rightarrow>
          Inr [(''analysis'', JStr response),
               (''tempo_bpm'', JNum (tempo_bpm (fst (audio_features w (map_of files path))))),
               (''duration_seconds'', JNum (snd (audio_features w (map_of files path))))])"
  by (simp add: analyze_music_def Let_def split: sum.splits prod.splits)

lemma tempo_bpm_nonneg: "0 \<le> num_val t \<Longrightarrow> 0 \<le> num_val (tempo_bpm t)"
  by (simp add: tempo_bpm_def)

lemma extract_features_tempo:
  assumes "\<And>y sr t. beat_track w y sr = Inr t \<Longrightarrow> 0 \<le> t"
      and "extract_features w audio = Inr (t, d)"
  shows "0 \<le> t"
  using assms
  by (auto simp: extract_features_def split: sum.splits prod.splits if_splits)

lemma extract_features_duration:
  assumes "\<And>audio d y sr. librosa_load w audio d = Inr (y, sr) \<Longrightarrow> length y \<le> d * sr"
      and "extract_features w audio = Inr (t, d)"
  shows "d \<le> 30"
proof -
  from assms(2) obtain y sr where load: "librosa_load w audio 30 = Inr (y, sr)"
    and sr: "sr \<noteq> 0" and d: "d = real (length y) / real sr"
    by (auto simp: extract_features_def split: sum.splits prod.splits if_splits)
  from assms(1) [OF load] have "real (length y) \<le> 30 * real sr"
    by (metis of_nat_le_iff of_nat_mult of_nat_numeral)
  with sr show ?thesis
    unfolding d by (simp add: divide_le_eq)
qed

text \<open>
  C1. On each of the four task routes, when the handler method called by the route raises
  an exception, the route still returns a response (the request does not end in an
  exception), and that response has status 500 and the JSON body
  \<^verbatim>\<open>{"error": str(e)}\<close>.
\<close>

theorem inference_exception_gives_500:
  assumes "NamedTemporaryFile_write w files upload = (Inr tmp_path, files', evs)"
      and "handler w r files' tmp_path = Inl e"
  shows "outcome (fastapi_app w r files upload) =
           Inr \<lparr>status = 500, content = [(''error'', JStr (message e))]\<rparr>"
  using assms(2) by (simp add: fastapi_app_stored [OF assms(1)])

theorem inference_exception_gives_500_witness:
  "outcome (fastapi_app out_of_memory_world (Analyze_route None) [] ''RIFF'') =
     Inr \<lparr>status = 500, content = [(''error'', JStr ''CUDA out of memory'')]\<rparr> \<and>
   outcome (fastapi_app out_of_memory_world Party_vibe_route [] ''RIFF'') =
     Inr \<lparr>status = 500, content = [(''error'', JStr ''CUDA out of memory'')]\<rparr> \<and>
   outcome (fastapi_app out_of_memory_world Transcribe_route [] ''RIFF'') =
     Inr \<lparr>status = 500, content = [(''error'', JStr ''CUDA out of memory'')]\<rparr> \<and>
   outcome (fastapi_app out_of_memory_world Caption_route [] ''RIFF'') =
     Inr \<lparr>status = 500, content = [(''error'', JStr ''CUDA out of memory'')]\<rparr>"
proof -
  have w: "NamedTemporaryFile_write out_of_memory_world [] ''RIFF'' =
             (Inr (tmp_name []), [(tmp_name [], ''RIFF'')], [Created (tmp_name [])])"
    by (simp add: with_block_cases out_of_memory_world_def)
  have "handler out_of_memory_world r [(tmp_name [], ''RIFF'')] (tmp_name []) =
          Inl (Exn OtherException ''CUDA out of memory'')" for r
    by (cases r)
       (simp_all add: analyze_music_def party_vibe_check_def transcribe_lyrics_def
          generate_caption_def out_of_memory_world_def)
  note h = this
  from inference_exception_gives_500 [OF w h [of "Analyze_route None"]]
    inference_exception_gives_500 [OF w h [of Party_vibe_route]]
    inference_exception_gives_500 [OF w h [of Transcribe_route]]
    inference_exception_gives_500 [OF w h [of Caption_route]]
  show ?thesis
    by simp
qed

lemma stored_upload_is_removed:
  assumes "NamedTemporaryFile_write w files upload = (Inr tmp_path, files', evs)"
  shows "fs_log (fastapi_app w r files upload) = [Created tmp_path, Removed tmp_path] \<and>
         map_of files tmp_path = None \<and>
         files_after (fastapi_app w r files upload) = files"
proof -
  from assms have "tmp_path = tmp_name files"
    by (auto simp: with_block_cases split: sum.splits)
  then show ?thesis
    by (simp add: fastapi_app_stored [OF assms] tmp_name_absent)
qed

text \<open>
  C5. The code does not keep the claim. On a worker whose disk is full, writing the
  upload raises inside the \<^verbatim>\<open>with\<close> block, before the \<^verbatim>\<open>try / finally\<close> is entered:
  the request ends in that exception, the one temporary file that was created is never
  unlinked, and it is still there after the request.
\<close>

theorem temporary_file_left_behind:
  "fastapi_app disk_full_world (Analyze_route None) [] ''RIFF'' =
     \<lparr>outcome = Inl (Exn OtherException ''[Errno 28] No space left on device''),
      files_after = [(''/tmp/tmpx.wav'', [])],
      fs_log = [Created ''/tmp/tmpx.wav'']\<rparr>"
  by (simp add: analyze_def with_block_cases disk_full_world_def tmp_name_def)

text \<open>
  C6. A successful response of the transcription route (status 200) is a JSON object
  with the single field \<^verbatim>\<open>lyrics\<close>, a string; it has no \<^verbatim>\<open>tempo_bpm\<close> and no
  \<^verbatim>\<open>duration_seconds\<close>.
\<close>

theorem transcribe_only_lyrics:
  assumes "outcome (transcribe w files upload) = Inr r" and "status r = 200"
  shows "(\<exists>text. content r = [(''lyrics'', JStr text)]) \<and>
         map_of (content r) ''tempo_bpm'' = None \<and>
         map_of (content r) ''duration_seconds'' = None"
proof -
  obtain res files' evs where
    wb: "NamedTemporaryFile_write w files upload = (res, files', evs)"
    by (cases "NamedTemporaryFile_write w files upload") auto
  show ?thesis
  proof (cases res)
    case (Inl e)
    with wb have "NamedTemporaryFile_write w files upload = (Inl e, files', evs)"
      by simp
    from fastapi_app_not_stored [OF this, of Transcribe_route]
    have "outcome (transcribe w files upload) = Inl e"
      by simp
    with assms(1) show ?thesis
      by simp
  next
    case (Inr tmp_path)
    with wb have "NamedTemporaryFile_write w files upload = (Inr tmp_path, files', evs)"
      by simp
    from fastapi_app_stored [OF this, of Transcribe_route]
    have "outcome (transcribe w files upload) =
            Inr (case transcribe_lyrics w files' tmp_path of
                   Inr result \<Rightarrow> \<lparr>status = 200, content = result\<rparr>
                 | Inl e \<Rightarrow> \<lparr>status = 500, content = [(''error'', JStr (message e))]\<rparr>)"
      by simp
    with assms show ?thesis
      by (auto simp: transcribe_lyrics_def split: sum.splits)
  qed
qed

theorem transcribe_only_lyrics_witness:
  "(\<exists>text. content \<lparr>status = 200, content = [(''lyrics'', JStr ''upbeat house, energy 8'')]\<rparr>
      = [(''lyrics'', JStr text)]) \<and>
   outcome (transcribe studio_world [] ''RIFF'') =
     Inr \<lparr>status = 200, content = [(''lyrics'', JStr ''upbeat house, energy 8'')]\<rparr>"
proof -
  have run: "outcome (transcribe studio_world [] ''RIFF'') =
      Inr \<lparr>status = 200, content = [(''lyrics'', JStr ''upbeat house, energy 8'')]\<rparr>"
    by (simp add: transcribe_def with_block_cases respond_tmp transcribe_lyrics_def
        studio_world_def)
  from transcribe_only_lyrics [OF run] run show ?thesis
    by simp
qed

lemma handler_cases:
  assumes "r \<noteq> Transcribe_route"
  shows "\<exists>p. handler w r files path =
           (case generate w p (map_of files path) 512 Sampling of
              Inl e \<Rightarrow> Inl e
            | Inr response \<Rightarrow>
                Inr ([(''analysis'', JStr response),
                      (''tempo_bpm'', JNum (tempo_bpm (fst (audio_features w (map_of files path))))),
                      (''duration_seconds'', JNum (snd (audio_features w (map_of files path))))]
                     @ (if r = Party_vibe_route then [(''vibe_check'', JBool True)] else [])))"
proof (cases r)
  case (Analyze_route prompt)
  then show ?thesis
    by (intro exI [of _ "case prompt of None \<Rightarrow> default_prompt | Some p \<Rightarrow> p"])
       (simp add: analyze_music_cases split: sum.splits)
next
  case Party_vibe_route
  then show ?thesis
    by (intro exI [of _ party_prompt])
       (simp add: party_vibe_check_def analyze_music_cases split: sum.splits)
next
  case Transcribe_route
  with assms show ?thesis by simp
next
  case Caption_route
  then show ?thesis
    by (intro exI [of _ caption_prompt])
       (simp add: generate_caption_def analyze_music_cases split: sum.splits)
qed

lemma audio_features_tempo:
  assumes "\<And>y sr t. beat_track w y sr = Inr t \<Longrightarrow> 0 \<le> t"
  shows "0 \<le> num_val (fst (audio_features w audio))"
  using extract_features_tempo [OF assms]
  by (auto simp: audio_features_def split: sum.splits prod.splits)

lemma audio_features_failed:
  "isl (extract_features w audio) \<Longrightarrow> audio_features w audio = (PyInt 0, PyInt 0)"
  by (auto simp: audio_features_def split: sum.splits)

text \<open>
  C2. Let librosa's beat tracker return non-negative tempi. Then every result returned
  by \<^verbatim>\<open>analyze_music\<close>, \<^verbatim>\<open>party_vibe_check\<close> or \<^verbatim>\<open>generate_caption\<close> (the handlers of
  /analyze, /party-vibe and /caption) has a field \<^verbatim>\<open>tempo_bpm\<close> that is a non-negative
  number, and that is the integer 0 whenever feature extraction fails. A failure of
  feature extraction is not raised: every exception that leaves one of these handlers
  was raised by text generation.
\<close>

theorem tempo_bpm_nonnegative:
  assumes "\<And>y sr t. beat_track w y sr = Inr t \<Longrightarrow> 0 \<le> t"
      and "r \<noteq> Transcribe_route"
  shows "(\<forall>result. handler w r files path = Inr result \<longrightarrow>
            (\<exists>n. map_of result ''tempo_bpm'' = Some (JNum n) \<and> 0 \<le> num_val n \<and>
                 (isl (extract_features w (map_of files path)) \<longrightarrow> n = PyInt 0))) \<and>
         (\<forall>e. handler w r files path = Inl e \<longrightarrow>
            (\<exists>p. generate w p (map_of files path) 512 Sampling = Inl e))"
proof -
  from handler_cases [OF assms(2)] obtain p where
    h: "handler w r files path =
          (case generate w p (map_of files path) 512 Sampling of
             Inl e \<Rightarrow> Inl e
           | Inr response \<Rightarrow>
               Inr ([(''analysis'', JStr response),
                     (''tempo_bpm'', JNum (tempo_bpm (fst (audio_features w (map_of files path))))),
                     (''duration_seconds'', JNum (snd (audio_features w (map_of files path))))]
                    @ (if r = Party_vibe_route then [(''vibe_check'', JBool True)] else [])))"
    by blast
  have nonneg: "0 \<le> num_val (tempo_bpm (fst (audio_features w (map_of files path))))"
    by (rule tempo_bpm_nonneg) (rule audio_features_tempo [OF assms(1)])
  have zero: "tempo_bpm (fst (audio_features w (map_of files path))) = PyInt 0"
    if "isl (extract_features w (map_of files path))"
    using audio_features_failed [OF that] by (simp add: tempo_bpm_def)
  show ?thesis
  proof (cases "generate w p (map_of files path) 512 Sampling")
    case (Inl e)
    with h show ?thesis by auto
  next
    case (Inr response)
    with h nonneg zero show ?thesis by auto
  qed
qed

theorem tempo_bpm_nonnegative_witness:
  "isl (extract_features undecodable_world (map_of [(''a.wav'', ''RIFF'')] ''a.wav'')) \<and>
   handler undecodable_world (Analyze_route None) [(''a.wav'', ''RIFF'')] ''a.wav'' =
     Inr [(''analysis'', JStr ''upbeat house, energy 8''), (''tempo_bpm'', JNum (PyInt 0)),
          (''duration_seconds'', JNum (PyInt 0))] \<and>
   (\<exists>n. map_of [(''analysis'', JStr ''upbeat house, energy 8''), (''tempo_bpm'', JNum (PyInt 0)),
                 (''duration_seconds'', JNum (PyInt 0))] ''tempo_bpm'' = Some (JNum n) \<and>
        0 \<le> num_val n \<and> n = PyInt 0)"
proof -
  have beat: "beat_track undecodable_world y sr = Inr t \<Longrightarrow> 0 \<le> t" for y sr t
    by (auto simp: undecodable_world_def)
  have fails: "isl (extract_features undecodable_world (map_of [(''a.wav'', ''RIFF'')] ''a.wav''))"
    by (simp add: extract_features_def undecodable_world_def)
  have run: "handler undecodable_world (Analyze_route None) [(''a.wav'', ''RIFF'')] ''a.wav'' =
     Inr [(''analysis'', JStr ''upbeat house, energy 8''), (''tempo_bpm'', JNum (PyInt 0)),
          (''duration_seconds'', JNum (PyInt 0))]"
    by (simp add: analyze_music_def audio_features_def extract_features_def tempo_bpm_def
        undecodable_world_def)
  have "Analyze_route None \<noteq> Transcribe_route"
    by simp
  from tempo_bpm_nonnegative
         [OF beat this, where files = "[(''a.wav'', ''RIFF'')]" and path = "''a.wav''"]
       run fails
  show ?thesis
    by auto
qed

text \<open>
  C9. \<^verbatim>\<open>analyze_music\<close> asks librosa for at most 30 seconds of audio. Let librosa's loader
  return at most \<open>d * sr\<close> samples when asked for \<open>d\<close> seconds. Then the field
  \<^verbatim>\<open>duration_seconds\<close> of every result is a number that is at most 30, and when feature
  extraction fails both \<^verbatim>\<open>duration_seconds\<close> and \<^verbatim>\<open>tempo_bpm\<close> are the integer 0.
\<close>

theorem duration_at_most_30:
  assumes "\<And>audio d y sr. librosa_load w audio d = Inr (y, sr) \<Longrightarrow> length y \<le> d * sr"
      and "analyze_music w files path prompt = Inr result"
  shows "\<exists>d. map_of result ''duration_seconds'' = Some (JNum d) \<and> num_val d \<le> 30 \<and>
             (isl (extract_features w (map_of files path)) \<longrightarrow>
                d = PyInt 0 \<and> map_of result ''tempo_bpm'' = Some (JNum (PyInt 0)))"
proof -
  have bound: "num_val (snd (audio_features w (map_of files path))) \<le> 30"
    using extract_features_duration [OF assms(1)]
    by (auto simp: audio_features_def split: sum.splits prod.splits)
  have zero: "snd (audio_features w (map_of files path)) = PyInt 0 \<and>
              tempo_bpm (fst (audio_features w (map_of files path))) = PyInt 0"
    if "isl (extract_features w (map_of files path))"
    using audio_features_failed [OF that] by (simp add: tempo_bpm_def)
  from assms(2) bound zero show ?thesis
    unfolding analyze_music_cases by (auto split: sum.splits)
qed

theorem duration_at_most_30_witness:
  "analyze_music studio_world [(''a.wav'', ''RIFF'')] ''a.wav'' None =
     Inr [(''analysis'', JStr ''upbeat house, energy 8''), (''tempo_bpm'', JNum (PyFloat 120)),
          (''duration_seconds'', JNum (PyFloat 30))] \<and>
   (\<exists>d. map_of [(''analysis'', JStr ''upbeat house, energy 8''), (''tempo_bpm'', JNum (PyFloat 120)),
                 (''duration_seconds'', JNum (PyFloat 30))] ''duration_seconds'' = Some (JNum d) \<and>
        num_val d \<le> 30)"
proof -
  have load: "librosa_load studio_world audio d = Inr (y, sr) \<Longrightarrow> length y \<le> d * sr"
    for audio d y sr
    by (auto simp: studio_world_def)
  have run: "analyze_music studio_world [(''a.wav'', ''RIFF'')] ''a.wav'' None =
     Inr [(''analysis'', JStr ''upbeat house, energy 8''), (''tempo_bpm'', JNum (PyFloat 120)),
          (''duration_seconds'', JNum (PyFloat 30))]"
    by (simp add: analyze_music_def audio_features_def extract_features_def tempo_bpm_def
        studio_world_def)
  from duration_at_most_30 [OF load run] run show ?thesis
    by auto
qed

text \<open>
  C7. The response of /party-vibe is the response of /analyze called on the same upload
  with the party prompt, with the field \<^verbatim>\<open>vibe_check = true\<close> appended to a successful
  result; the request leaves the same files and the same file events. A successful
  response has exactly the fields \<^verbatim>\<open>analysis\<close>, \<^verbatim>\<open>tempo_bpm\<close>, \<^verbatim>\<open>duration_seconds\<close> and
  \<^verbatim>\<open>vibe_check\<close>, the last one true.
\<close>

theorem party_vibe_is_analyze_with_party_prompt:
  "party_vibe w files upload =
     extended_with_vibe_check (analyze w files upload (Some party_prompt)) \<and>
   (\<forall>r. outcome (party_vibe w files upload) = Inr r \<longrightarrow> status r = 200 \<longrightarrow>
      map fst (content r) = [''analysis'', ''tempo_bpm'', ''duration_seconds'', ''vibe_check''] \<and>
      map_of (content r) ''vibe_check'' = Some (JBool True))"
proof -
  obtain res files' evs where
    wb: "NamedTemporaryFile_write w files upload = (res, files', evs)"
    by (cases "NamedTemporaryFile_write w files upload") auto
  show ?thesis
  proof (cases res)
    case (Inl e)
    with wb have "NamedTemporaryFile_write w files upload = (Inl e, files', evs)"
      by simp
    from fastapi_app_not_stored [OF this, of Party_vibe_route]
      fastapi_app_not_stored [OF this, of "Analyze_route (Some party_prompt)"]
    show ?thesis
      by (simp add: extended_with_vibe_check_def)
  next
    case (Inr tmp_path)
    with wb have "NamedTemporaryFile_write w files upload = (Inr tmp_path, files', evs)"
      by simp
    from fastapi_app_stored [OF this, of Party_vibe_route]
      fastapi_app_stored [OF this, of "Analyze_route (Some party_prompt)"]
    show ?thesis
      by (auto simp: extended_with_vibe_check_def party_vibe_check_def analyze_music_cases
          split: sum.splits)
  qed
qed

theorem party_vibe_is_analyze_with_party_prompt_witness:
  "outcome (party_vibe studio_world [] ''RIFF'') =
     Inr \<lparr>status = 200,
          content = [(''analysis'', JStr ''upbeat house, energy 8''),
                     (''tempo_bpm'', JNum (PyFloat 120)),
                     (''duration_seconds'', JNum (PyFloat 30)),
                     (''vibe_check'', JBool True)]\<rparr> \<and>
   party_vibe studio_world [] ''RIFF'' =
     extended_with_vibe_check (analyze studio_world [] ''RIFF'' (Some party_prompt))"
proof -
  have run: "outcome (party_vibe studio_world [] ''RIFF'') =
     Inr \<lparr>status = 200,
          content = [(''analysis'', JStr ''upbeat house, energy 8''),
                     (''tempo_bpm'', JNum (PyFloat 120)),
                     (''duration_seconds'', JNum (PyFloat 30)),
                     (''vibe_check'', JBool True)]\<rparr>"
    by (simp add: party_vibe_def with_block_cases respond_tmp
        party_vibe_check_def analyze_music_def audio_features_def extract_features_def
        tempo_bpm_def studio_world_def)
  from party_vibe_is_analyze_with_party_prompt [of studio_world "[]" "''RIFF''"] run
  show ?thesis
    by simp
qed

section \<open>Properties of the client\<close>

lemma show_nat_500: "show_nat 500 = ''500''"
  by code_simp
























text \<open>
  C4, as stated, fails for the command \<^verbatim>\<open>health\<close>: with a path at which there is no
  file, it still sends its request and, the server being healthy, exits with status 0.
\<close>

theorem health_ignores_missing_file:
  "\<not> path_exists reachable_world ''missing.mp3'' \<and>
   main reachable_world (Namespace (cli_args Health (Some ''missing.mp3'') False)) =
     ([Get ''http://mm/health'',
       Print [Lit (check_mark @ '' ''), Str (JStr ''audio-flamingo-3''), Lit '' is healthy'']], 0)"
  by (simp add: main_def cli_args_def run_try_def try_body_def MusicMind_def health_check_def
      reachable_world_def checked_json_def raise_for_status_def ok_response_def bind_io_def
      show_health_def print_line_def pure_io_def health_json_def)

text \<open>
  C4, amended. For every command other than \<^verbatim>\<open>health\<close>, an invocation with a path at
  which no file exists exits with status 1 and sends no request.
\<close>

theorem missing_file_exits_before_any_request:
  assumes "arg_command a \<noteq> Health"
      and "arg_audio_file a = Some path"
      and "\<not> path_exists w path"
  shows "snd (main w (Namespace a)) = 1 \<and> filter is_request (fst (main w (Namespace a))) = []"
  using assms by (simp add: main_def is_request_def print_line_def split: sum.splits)

theorem missing_file_exits_before_any_request_witness:
  "arg_command (cli_args Analyze (Some ''missing.mp3'') False) \<noteq> Health \<and>
   \<not> path_exists reachable_world ''missing.mp3'' \<and>
   snd (main reachable_world (Namespace (cli_args Analyze (Some ''missing.mp3'') False))) = 1 \<and>
   filter is_request
     (fst (main reachable_world (Namespace (cli_args Analyze (Some ''missing.mp3'') False)))) = []"
proof -
  have c: "arg_command (cli_args Analyze (Some ''missing.mp3'') False) \<noteq> Health"
    and f: "arg_audio_file (cli_args Analyze (Some ''missing.mp3'') False) = Some ''missing.mp3''"
    and e: "\<not> path_exists reachable_world ''missing.mp3''"
    by (simp_all add: cli_args_def reachable_world_def)
  from missing_file_exits_before_any_request [OF c f e] c e show ?thesis
    by simp
qed

text \<open>
  C10. \<^verbatim>\<open>MusicMind.analyze\<close> called with the empty string as prompt does what it does
  when called without a prompt. The form data of the request it sends has the field
  \<^verbatim>\<open>prompt\<close> exactly when the prompt is a non-empty string, and then the field is that
  string. The /analyze route, given a request without the field (as the one sent for
  the empty prompt), answers as it does for the built-in default prompt.
\<close>

theorem empty_prompt_is_no_prompt:
  "MusicMind_analyze w endpoint audio_path (Some []) =
     MusicMind_analyze w endpoint audio_path None \<and>
   (\<forall>u f d. Post u f d \<in> set (fst (MusicMind_analyze w endpoint audio_path prompt)) \<longrightarrow>
      form_prompt d = (if prompt = Some [] then None else prompt)) \<and>
   analyze sw files upload (form_prompt (prompt_data (Some []))) =
     analyze sw files upload (Some default_prompt)"
proof -
  have "form_prompt (prompt_data prompt) = (if prompt = Some [] then None else prompt)"
    by (cases prompt) (simp_all add: form_prompt_def prompt_data_def)
  moreover have "analyze_music sw fs p None = analyze_music sw fs p (Some default_prompt)"
    for fs p
    by (simp add: analyze_music_def)
  then have "analyze sw files upload None = analyze sw files upload (Some default_prompt)"
    by (simp add: analyze_def split: prod.splits sum.splits)
  ultimately show ?thesis
    by (auto simp: MusicMind_analyze_def form_prompt_def prompt_data_def split: sum.splits)
qed

theorem empty_prompt_is_no_prompt_witness:
  "fst (MusicMind_analyze reachable_world ''http://mm'' ''song.mp3'' (Some [])) =
     [Post ''http://mm/analyze'' ''RIFF'' []] \<and>
   Post ''http://mm/analyze'' ''RIFF'' [] \<in>
     set (fst (MusicMind_analyze reachable_world ''http://mm'' ''song.mp3'' (Some []))) \<and>
   form_prompt [] = None \<and>
   MusicMind_analyze reachable_world ''http://mm'' ''song.mp3'' (Some []) =
     MusicMind_analyze reachable_world ''http://mm'' ''song.mp3'' None"
proof -
  have run: "fst (MusicMind_analyze reachable_world ''http://mm'' ''song.mp3'' (Some [])) =
     [Post ''http://mm/analyze'' ''RIFF'' []]"
    by (simp add: MusicMind_analyze_def reachable_world_def prompt_data_def)
  from empty_prompt_is_no_prompt
         [of reachable_world "''http://mm''" "''song.mp3''" "Some []" studio_world "[]" "''RIFF''"]
       run
  show ?thesis
    by simp
qed

end
